theory Spec2Isabelle
  imports Main "HOL-Library.Sublist" "HOL-Library.AList"
begin

section \<open>Python strings\<close>

text \<open>
  A Python \<open>str\<close> is a sequence of code points. The model is \<open>string\<close>, a list of
  \<open>char\<close>, each \<open>char\<close> one code point below 256 (Latin-1, with ASCII as its lower
  half); the pound sign of the prompt texts is the single character \<open>CHR 0xA3\<close>.
  The classifications below (\<open>isspace\<close>, \<open>isupper\<close>, \<open>islower\<close>) and \<open>lower\<close> are
  Python's on that range. Upper-casing is Python's on ASCII, which is all that
  \<open>title()\<close> meets in this program: it is only applied to the section keys, ASCII
  literals of the script.
\<close>

definition code_point :: "char \<Rightarrow> nat" where
  "code_point c = of_char c"

definition chr_isspace :: "char \<Rightarrow> bool" where
  "chr_isspace c =
     (let n = code_point c
      in (9 \<le> n \<and> n \<le> 13) \<or> (28 \<le> n \<and> n \<le> 32) \<or> n = 133 \<or> n = 160)"

definition chr_isupper :: "char \<Rightarrow> bool" where
  "chr_isupper c =
     (let n = code_point c
      in (65 \<le> n \<and> n \<le> 90) \<or> (192 \<le> n \<and> n \<le> 222 \<and> n \<noteq> 215))"

definition chr_islower :: "char \<Rightarrow> bool" where
  "chr_islower c =
     (let n = code_point c
      in (97 \<le> n \<and> n \<le> 122) \<or> n = 170 \<or> n = 181 \<or> n = 186 \<or>
         (223 \<le> n \<and> n \<le> 255 \<and> n \<noteq> 247))"

definition chr_iscased :: "char \<Rightarrow> bool" where
  "chr_iscased c = (chr_isupper c \<or> chr_islower c)"

definition chr_lower :: "char \<Rightarrow> char" where
  "chr_lower c = (if chr_isupper c then char_of (code_point c + 32) else c)"

definition chr_upper :: "char \<Rightarrow> char" where
  "chr_upper c =
     (let n = code_point c in if 97 \<le> n \<and> n \<le> 122 then char_of (n - 32) else c)"

text \<open>\<open>s.lower()\<close>.\<close>

definition py_lower :: "string \<Rightarrow> string" where
  "py_lower s = map chr_lower s"

text \<open>
  \<open>s.title()\<close>: a character that follows a cased character is lower-cased, any other
  character is title-cased; the flag is whether the previous character was cased.
\<close>

fun title_from :: "bool \<Rightarrow> string \<Rightarrow> string" where
  "title_from previous_is_cased [] = []"
| "title_from previous_is_cased (c # cs) =
     (if previous_is_cased then chr_lower c else chr_upper c) # title_from (chr_iscased c) cs"

definition py_title :: "string \<Rightarrow> string" where
  "py_title s = title_from False s"

text \<open>
  \<open>s.isupper()\<close>: no lower-case character, and at least one upper-case character.
\<close>

definition py_isupper :: "string \<Rightarrow> bool" where
  "py_isupper s = (\<not> list_ex chr_islower s \<and> list_ex chr_isupper s)"

text \<open>\<open>s.strip()\<close>: leading and trailing whitespace removed.\<close>

definition py_strip :: "string \<Rightarrow> string" where
  "py_strip s = rev (dropWhile chr_isspace (rev (dropWhile chr_isspace s)))"

text \<open>\<open>s.startswith(p)\<close>.\<close>

definition py_startswith :: "string \<Rightarrow> string \<Rightarrow> bool" where
  "py_startswith s p = prefix p s"

text \<open>\<open>sub in s\<close>: \<open>sub\<close> occurs in \<open>s\<close> as a contiguous run (always, when empty).\<close>

fun py_in :: "string \<Rightarrow> string \<Rightarrow> bool" where
  "py_in sub [] = (sub = [])"
| "py_in sub (c # cs) = (prefix sub (c # cs) \<or> py_in sub cs)"

text \<open>
  \<open>s.split(sep)\<close> for a separator of one character: the pieces between the
  separators, so one piece more than there are separators (\<open>''.split('\n') == ['']\<close>).
  \<open>split_from\<close> scans the string with the piece read so far.
\<close>

fun split_from :: "char \<Rightarrow> string \<Rightarrow> string \<Rightarrow> string list" where
  "split_from sep piece [] = [piece]"
| "split_from sep piece (c # cs) =
     (if c = sep then piece # split_from sep [] cs
      else split_from sep (piece @ [c]) cs)"

definition py_split :: "char \<Rightarrow> string \<Rightarrow> string list" where
  "py_split sep s = split_from sep [] s"

text \<open>
  \<open>s.replace(old, new)\<close>: the occurrences of \<open>old\<close> are found from the left and do
  not overlap. \<open>replace_from k\<close> first passes over \<open>k\<close> characters, the rest of an
  occurrence it has just replaced. An empty \<open>old\<close> matches before every character
  and at the end.
\<close>

fun replace_from :: "nat \<Rightarrow> string \<Rightarrow> string \<Rightarrow> string \<Rightarrow> string" where
  "replace_from k old new [] = []"
| "replace_from (Suc k) old new (c # cs) = replace_from k old new cs"
| "replace_from 0 old new (c # cs) =
     (if prefix old (c # cs) then new @ replace_from (length old - 1) old new cs
      else c # replace_from 0 old new cs)"

definition py_replace :: "string \<Rightarrow> string \<Rightarrow> string \<Rightarrow> string" where
  "py_replace old new s =
     (if old = [] then new @ concat (map (\<lambda>c. c # new) s) else replace_from 0 old new s)"

text \<open>\<open>any(xs)\<close> on a list of booleans.\<close>

definition py_any :: "bool list \<Rightarrow> bool" where
  "py_any xs = list_ex (\<lambda>x. x) xs"

section \<open>Title extraction (lines 341 to 350)\<close>

text \<open>
  The test of the loop: the line starts with \<open># \<close>, or is upper-case, or holds the
  investor's name.
\<close>

definition looks_like_title :: "string \<Rightarrow> string \<Rightarrow> bool" where
  "looks_like_title investor line =
     (py_startswith line ''# '' \<or> py_isupper line \<or> py_in investor line)"

definition clean_title :: "string \<Rightarrow> string" where
  "clean_title line = py_strip (py_replace ''#'' '''' (py_replace ''# '' '''' line))"

text \<open>
  The \<open>for\<close> loop with its \<open>break\<close>: \<open>title\<close> holds the fallback until a line passes
  the test.
\<close>

fun title_loop :: "string \<Rightarrow> string \<Rightarrow> string list \<Rightarrow> string" where
  "title_loop investor title [] = title"
| "title_loop investor title (line # lines) =
     (if looks_like_title investor line then clean_title line
      else title_loop investor title lines)"

definition extract_title :: "string \<Rightarrow> string \<Rightarrow> string \<Rightarrow> string" where
  "extract_title investor selected_deal_name response =
     (let lines = py_split (CHR 0x0A) (py_strip response);
          title = selected_deal_name
      in title_loop investor title (take 5 lines))"

section \<open>The catalog loader (lines 67 to 95)\<close>

text \<open>
  What \<open>json.load\<close> can return. A float is kept as the text of its literal.
\<close>

datatype json =
    JNull
  | JBool bool
  | JInt int
  | JFloat string
  | JStr string
  | JList "json list"
  | JDict "(string \<times> json) list"

text \<open>
  The file system as the loader sees it, a path at a time: nothing there; something
  there that \<open>open\<close> refuses (a directory, a file without read permission), with the
  text of the \<open>OSError\<close>; or a file with its text.
\<close>

datatype fs_entry = Missing | Unopenable string | Contents string

type_synonym filesystem = "string \<Rightarrow> fs_entry"

text \<open>
  The exceptions of the model. Each is a subclass of Python's \<open>Exception\<close>, so the
  loader's \<open>except Exception\<close> catches every one of them that its \<open>try\<close> raises. A
  \<open>FileNotFoundError\<close> carries the file name when the failing call has one (\<open>open\<close>
  has, \<open>os.getcwd\<close> has not).
\<close>

datatype py_exception =
    FileNotFoundError "string option"
  | OSError string
  | JSONDecodeError string
  | IndexError

text \<open>\<open>str(e)\<close>, as the first error message shows it.\<close>

definition str_exception :: "py_exception \<Rightarrow> string" where
  "str_exception e =
     (case e of
        FileNotFoundError None \<Rightarrow> ''[Errno 2] No such file or directory''
      | FileNotFoundError (Some path) \<Rightarrow>
          ''[Errno 2] No such file or directory: '' @ [CHR 0x27] @ path @ [CHR 0x27]
      | OSError msg \<Rightarrow> msg
      | JSONDecodeError msg \<Rightarrow> msg
      | IndexError \<Rightarrow> ''list index out of range'')"

text \<open>
  What the page shows and does, in order: the calls of \<open>st.error\<close>, \<open>st.spinner\<close>,
  \<open>graph.invoke\<close>, \<open>st.subheader\<close>, \<open>st.markdown\<close> and \<open>st.download_button\<close> (label,
  data, file name, MIME type).
\<close>

record invoke_request =
  messages :: "(string \<times> string) list"
  max_research_loops :: int
  initial_search_query_count :: int
  reasoning_model :: string

datatype ui_event =
    StError string
  | StSpinner string
  | GraphInvoke invoke_request
  | StSubheader string
  | StMarkdown string
  | StDownloadButton string string string string

definition path_exists :: "filesystem \<Rightarrow> string \<Rightarrow> bool" where
  "path_exists fs path = (fs path \<noteq> Missing)"

text \<open>
  \<open>with open(path, "r") as f: return json.load(f)\<close>. The parser is the library's:
  \<open>json_loads\<close> gives the value of a text, or the message of the \<open>JSONDecodeError\<close>.
\<close>

definition open_and_load ::
  "(string \<Rightarrow> string + json) \<Rightarrow> filesystem \<Rightarrow> string \<Rightarrow> py_exception + json" where
  "open_and_load json_loads fs path =
     (case fs path of
        Missing \<Rightarrow> Inl (FileNotFoundError (Some path))
      | Unopenable msg \<Rightarrow> Inl (OSError msg)
      | Contents text \<Rightarrow>
          (case json_loads text of
             Inl msg \<Rightarrow> Inl (JSONDecodeError msg)
           | Inr v \<Rightarrow> Inr v))"

text \<open>\<open>os.path.join(a, b)\<close> for a relative \<open>b\<close>.\<close>

definition os_path_join :: "string \<Rightarrow> string \<Rightarrow> string" where
  "os_path_join a b = (if a = [] \<or> last a = CHR ''/'' then a @ b else a @ ''/'' @ b)"

text \<open>
  The candidate paths; \<open>script_dir\<close> is \<open>os.path.dirname(__file__)\<close>.
\<close>

definition possible_paths :: "string \<Rightarrow> string list" where
  "possible_paths script_dir =
     [''src/scraped_companies_final.json'',
      ''../src/scraped_companies_final.json'',
      ''backend/src/scraped_companies_final.json'',
      os_path_join script_dir ''scraped_companies_final.json'']"

definition absolute_path :: string where
  "absolute_path =
     ''/home/walker/Desktop/deepsearch_gemini/gemini-fullstack-langgraph-quickstart/backend/src/scraped_companies_final.json''"

text \<open>
  The \<open>for\<close> loop of lines 78 to 81: \<open>Some\<close> is what the \<open>return\<close> inside the loop gave
  (a value, or the exception it raised), \<open>None\<close> is the loop running to its end.
\<close>

fun probe ::
  "(string \<Rightarrow> string + json) \<Rightarrow> filesystem \<Rightarrow> string list \<Rightarrow> (py_exception + json) option" where
  "probe json_loads fs [] = None"
| "probe json_loads fs (path # paths) =
     (if path_exists fs path then Some (open_and_load json_loads fs path)
      else probe json_loads fs paths)"

text \<open>The body of the \<open>try\<close>.\<close>

definition load_try ::
  "(string \<Rightarrow> string + json) \<Rightarrow> filesystem \<Rightarrow> string \<Rightarrow> py_exception + json" where
  "load_try json_loads fs script_dir =
     (case probe json_loads fs (possible_paths script_dir) of
        Some r \<Rightarrow> r
      | None \<Rightarrow> open_and_load json_loads fs absolute_path)"

definition empty_catalog :: json where
  "empty_catalog = JDict [(''portfolios'', JList [])]"

text \<open>
  \<open>os.getcwd()\<close>: the working directory of the process, or a \<open>FileNotFoundError\<close>
  when that directory has been removed. \<open>cwd\<close> is the directory, \<open>None\<close> when it is
  gone.
\<close>

definition os_getcwd :: "string option \<Rightarrow> py_exception + string" where
  "os_getcwd cwd =
     (case cwd of
        None \<Rightarrow> Inl (FileNotFoundError None)
      | Some dir \<Rightarrow> Inr dir)"

text \<open>
  The handler, lines 88 to 95, for the exception \<open>e\<close> it has caught: what leaves it (the
  empty catalog it returns, or an exception raised inside it) and the messages shown
  up to there. The first message is shown before line 91 calls \<open>os.getcwd()\<close>; nothing
  catches what that call raises. The calls of \<open>st.error\<close> are taken to return.
\<close>

definition load_except ::
  "py_exception \<Rightarrow> string option \<Rightarrow> (py_exception + json) \<times> ui_event list" where
  "load_except e cwd =
     (let shown = [StError (''Error loading deal data: '' @ str_exception e)]
      in case os_getcwd cwd of
           Inl raised \<Rightarrow> (Inl raised, shown)
         | Inr dir \<Rightarrow>
             (Inr empty_catalog,
              shown @
              [StError (''Current directory: '' @ dir),
               StError ''Please make sure the JSON file is at the correct location'']))"

text \<open>
  \<open>load_deal_data\<close>: what leaves the function (the value it returns, or the exception
  that reaches its caller) and the messages shown. The file system and \<open>cwd\<close> are given
  separately: a process whose working directory is gone sees no relative path. The
  decorator \<open>st.cache_data\<close> keeps the result of a run and changes none.
\<close>

definition load_deal_data ::
  "(string \<Rightarrow> string + json) \<Rightarrow> filesystem \<Rightarrow> string \<Rightarrow> string option \<Rightarrow>
   (py_exception + json) \<times> ui_event list" where
  "load_deal_data json_loads fs script_dir cwd =
     (case load_try json_loads fs script_dir of
        Inr v \<Rightarrow> (Inr v, [])
      | Inl e \<Rightarrow> load_except e cwd)"

text \<open>
  For comparison with the loader, the first candidate, in the loader's order, that
  exists, opens and parses.
\<close>

definition candidates :: "string \<Rightarrow> string list" where
  "candidates script_dir = possible_paths script_dir @ [absolute_path]"


section \<open>The texts of the prompt (lines 255 to 327)\<close>

text \<open>
  The f-string of lines 255 to 272. Its holes are the report type, the target
  company's name, \<open>json.dumps(selected_deal, indent=2)\<close> (the text the library
  produces, taken as given), the investor, the portfolio URL as the f-string prints it
  (\<open>Not available\<close> when the portfolio has no such key), and the report type in lower
  case.
\<close>

definition prompt_header :: "string \<Rightarrow> string \<Rightarrow> string \<Rightarrow> string \<Rightarrow> string \<Rightarrow> string" where
  "prompt_header report_type selected_deal_name deal_json investor portfolio_url =
     ''\<newline>'' @
     ''                    Generate a detailed '' @
     report_type @
     '' for the company '' @
     selected_deal_name @
     ''.\<newline>'' @
     ''                    \<newline>'' @
     ''                    START WITH A DESCRIPTIVE DEAL TITLE: Create a compelling title that includes both the investor name and key deal information.\<newline>'' @
     ''                    The title should follow this format: \"[Investor Name] [Action/Deal Type] [Target Company] [Deal Value/Size if available]\"\<newline>'' @
     ''                    \<newline>'' @
     ''                    Examples of good titles:\<newline>'' @
     ''                    - \"BGF Backs Specialist Surveying Firm Anstey Horne in '' @ [CHR 0xA3] @ ''6.5M Growth Deal\"\<newline>'' @
     ''                    - \"Tikehau Capital's Buyout of French IT Services Provider BT2i\"\<newline>'' @
     ''                    - \"Galiena Capital Acquires Medical Device Manufacturer 3DISC in Strategic Expansion\"\<newline>'' @
     ''                    \<newline>'' @
     ''                    Here is the data we have about the deal:\<newline>'' @
     ''                    '' @
     deal_json @
     ''\<newline>'' @
     ''                    \<newline>'' @
     ''                    For the investor '' @
     investor @
     '', with portfolio URL: '' @
     portfolio_url @
     ''\<newline>'' @
     ''                    \<newline>'' @
     ''                    Based on this information and additional research, please provide a comprehensive '' @
     py_lower report_type @
     '' with the following sections:\<newline>'' @
     ''                    ''"

text \<open>The block of lines 280 to 287, for the Deal Summary Report only.\<close>

definition deal_summary_requirements :: string where
  "deal_summary_requirements =
     ''\<newline>'' @
     ''                        \<newline>'' @
     ''                        IMPORTANT: Please ensure you include detailed information about:\<newline>'' @
     ''                        - The company's products and services portfolio with specifications\<newline>'' @
     ''                        - The company's unique value proposition and market differentiation\<newline>'' @
     ''                        - All industry sectors the company operates in, including primary and niche markets\<newline>'' @
     ''                        - The strategic context and rationale of the deal\<newline>'' @
     ''                        ''"

text \<open>The block of lines 290 to 301: plain text, with no hole.\<close>

definition british_english_mandatory :: string where
  "british_english_mandatory =
     ''\<newline>'' @
     ''                    \<newline>'' @
     ''                    MANDATORY LANGUAGE STYLE: All reports MUST be written in British English spelling, grammar and terminology.\<newline>'' @
     ''                    This includes:\<newline>'' @
     ''                    - Use of 's' instead of 'z' in words like 'organisation', 'specialisation'\<newline>'' @
     ''                    - Spelling patterns like 'colour', 'centre', 'programme', 'catalogue'\<newline>'' @
     ''                    - British business terminology such as 'turnover' instead of 'revenue'\<newline>'' @
     ''                    - DD/MM/YYYY date format\<newline>'' @
     ''                    - '' @ [CHR 0xA3] @ '' symbol for GBP currency when relevant\<newline>'' @
     ''                    \<newline>'' @
     ''                    DO NOT use American English spelling or terminology under any circumstances.\<newline>'' @
     ''                    ''"

text \<open>The block of lines 304 to 317: plain text, with no hole.\<close>

definition british_english_highest_priority :: string where
  "british_english_highest_priority =
     ''\<newline>'' @
     ''                    \<newline>'' @
     ''                    HIGHEST PRIORITY REQUIREMENT: ALL OUTPUT MUST BE IN BRITISH ENGLISH ONLY.\<newline>'' @
     ''                    \<newline>'' @
     ''                    This is not optional but an absolute requirement. The entire report must use:\<newline>'' @
     ''                    - British spelling conventions: 'organisation' not 'organization', 'specialise' not 'specialize'\<newline>'' @
     ''                    - British terminology: 'turnover' not 'revenue', 'managing director' not 'CEO' where appropriate\<newline>'' @
     ''                    - British date format: DD/MM/YYYY format (e.g., 15/06/2025)\<newline>'' @
     ''                    - British currency notation: '' @ [CHR 0xA3] @ '' for pounds sterling\<newline>'' @
     ''                    - British punctuation and quotation conventions\<newline>'' @
     ''                    \<newline>'' @
     ''                    Treat this as the most critical instruction that overrides all default language settings.\<newline>'' @
     ''                    ANY use of American English spelling or terminology will render the report unacceptable.\<newline>'' @
     ''                    ''"

text \<open>
  The f-string of lines 321 to 327; its one hole is the conditional expression on
  \<open>detailed_sources\<close>.
\<close>

definition sources_detailed_text :: string where
  "sources_detailed_text =
     ''Include detailed information about each source, such as publication date, author, and reliability assessment.''"

definition sources_basic_text :: string where
  "sources_basic_text =
     ''List all sources with their URLs at the end of the report in a dedicated Sources section.''"

definition sources_instruction :: "bool \<Rightarrow> string" where
  "sources_instruction detailed_sources =
     ''\<newline>'' @
     ''                        \<newline>'' @
     ''                        IMPORTANT: For each fact or piece of information, please cite your sources and include the full URLs.\<newline>'' @
     ''                        '' @
     (if detailed_sources then sources_detailed_text else sources_basic_text) @
     ''\<newline>'' @
     ''                        \<newline>'' @
     ''                        The final report MUST include a dedicated \"Sources\" section at the end with numbered references and clickable links to all sources used.\<newline>'' @
     ''                        ''"

section \<open>The sidebar and the report configuration (lines 118 to 214)\<close>

definition report_type_options :: "string list" where
  "report_type_options =
     [''Deal Summary Report'',
      ''Target Company Analysis'',
      ''PortCo Company Analysis'',
      ''Investment Thesis & Value Creation Strategy'']"

text \<open>
  The state of the widgets: the report type, the model, the research depth, the two
  citation checkboxes, and the section checkboxes, each under its label.
\<close>

record widgets =
  report_type :: string
  model_option :: string
  research_effort :: string
  include_sources :: bool
  detailed_sources :: bool
  checkbox :: "string \<Rightarrow> bool"

text \<open>
  The selected deal and its portfolio, as the prompt uses them: the target company's
  name, \<open>json.dumps(selected_deal, indent=2)\<close>, the investor, and the portfolio URL
  when the portfolio has one.
\<close>

record deal_selection =
  selected_deal_name :: string
  selected_deal_json :: string
  portfolio_investor :: string
  portfolio_url :: "string option"

text \<open>Lines 148 to 156: \<open>(initial_queries, max_loops)\<close>.\<close>

definition research_params :: "string \<Rightarrow> int \<times> int" where
  "research_params effort =
     (if effort = ''Basic'' then (2, 2)
      else if effort = ''Comprehensive'' then (6, 10)
      else (4, 5))"

text \<open>
  A \<open>dict\<close> keeps its keys in the order of their first assignment: an association
  list, \<open>d[k] = v\<close> being \<open>AList.update k v d\<close>.
\<close>

definition assign_all :: "(string \<times> bool) list \<Rightarrow> (string \<times> bool) list \<Rightarrow> (string \<times> bool) list" where
  "assign_all kvs d = foldl (\<lambda>d (k, v). AList.update k v d) d kvs"

definition include_sections :: "widgets \<Rightarrow> (string \<times> bool) list" where
  "include_sections w =
     (let d = [];
          d = (if report_type w = ''Deal Summary Report'' then
                 assign_all
                   [(''deal_overview'', checkbox w ''Deal Overview''),
                    (''transaction_details'', checkbox w ''Transaction Details''),
                    (''market_analysis'', checkbox w ''Market Analysis''),
                    (''competitors'', checkbox w ''Competitor Analysis'')] d
               else if report_type w = ''Target Company Analysis'' then
                 assign_all
                   [(''company_profile'', checkbox w ''Company Profile''),
                    (''products_services'', checkbox w ''Products & Services''),
                    (''management_team'', checkbox w ''Management Team''),
                    (''financial_performance'', checkbox w ''Financial Performance''),
                    (''competitors'', checkbox w ''Competitor Analysis'')] d
               else if report_type w = ''PortCo Company Analysis'' then
                 assign_all
                   [(''portco_profile'', checkbox w ''PortCo Profile''),
                    (''acquisition_strategy'', checkbox w ''Acquisition Strategy''),
                    (''integration_synergies'', checkbox w ''Integration & Synergies''),
                    (''competitors'', checkbox w ''Competitor Analysis'')] d
               else if report_type w = ''Investment Thesis & Value Creation Strategy'' then
                 assign_all
                   [(''investment_rationale'', checkbox w ''Investment Rationale''),
                    (''value_creation_plan'', checkbox w ''Value Creation Plan''),
                    (''exit_strategy'', checkbox w ''Exit Strategy''),
                    (''competitors'', checkbox w ''Competitor Analysis'')] d
               else d)
      in if include_sources w then AList.update ''sources'' True d else d)"

section \<open>Building the prompt (lines 255 to 327)\<close>

text \<open>Line 274: the list comprehension over \<open>include_sections.items()\<close>.\<close>

definition humanize :: "string \<Rightarrow> string" where
  "humanize section = py_title (py_replace ''_'' '' '' section)"

definition selected_sections :: "(string \<times> bool) list \<Rightarrow> string list" where
  "selected_sections d =
     map (\<lambda>(section, include). humanize section)
       (filter (\<lambda>(section, include). include \<and> section \<noteq> ''sources'') d)"

text \<open>Lines 275 and 276: one \<open>+=\<close> for each selected section.\<close>

definition add_bullets :: "string \<Rightarrow> string list \<Rightarrow> string" where
  "add_bullets prompt sections = foldl (\<lambda>prompt section. prompt @ ''\<newline>- '' @ section) prompt sections"

definition portfolio_url_text :: "deal_selection \<Rightarrow> string" where
  "portfolio_url_text sel =
     (case portfolio_url sel of None \<Rightarrow> ''Not available'' | Some url \<Rightarrow> url)"

definition build_prompt :: "widgets \<Rightarrow> deal_selection \<Rightarrow> string" where
  "build_prompt w sel =
     (let prompt = prompt_header (report_type w) (selected_deal_name sel)
                     (selected_deal_json sel) (portfolio_investor sel) (portfolio_url_text sel);
          prompt = add_bullets prompt (selected_sections (include_sections w));
          prompt = (if report_type w = ''Deal Summary Report''
                    then prompt @ deal_summary_requirements else prompt);
          prompt = prompt @ british_english_mandatory;
          prompt = prompt @ british_english_highest_priority
      in if include_sources w then prompt @ sources_instruction (detailed_sources w)
         else prompt)"

section \<open>The report button (lines 249 to 365)\<close>

text \<open>
  What \<open>graph.invoke\<close> returns, as line 338 tells the cases apart: a falsy value
  (\<open>None\<close>, an empty dictionary); a truthy state without the key \<open>messages\<close>; a state
  with its messages, each by its \<open>content\<close>.
\<close>

datatype agent_state = Falsy | State "string list option"

definition agent_request :: "widgets \<Rightarrow> deal_selection \<Rightarrow> invoke_request" where
  "agent_request w sel =
     (let (initial_queries, max_loops) = research_params (research_effort w)
      in \<lparr>messages = [(''user'', build_prompt w sel)],
          max_research_loops = max_loops,
          initial_search_query_count = initial_queries,
          reasoning_model = model_option w\<rparr>)"

definition download_file_name :: "widgets \<Rightarrow> deal_selection \<Rightarrow> string" where
  "download_file_name w sel =
     selected_deal_name sel @ ''_'' @ py_replace '' '' ''_'' (report_type w) @ ''.md''"

text \<open>Lines 339 to 363, for a state with at least one message.\<close>

definition show_report :: "widgets \<Rightarrow> deal_selection \<Rightarrow> string \<Rightarrow> ui_event list" where
  "show_report w sel response =
     (let title = extract_title (portfolio_investor sel) (selected_deal_name sel) response;
          report_text = ''# '' @ title @ ''\<newline>\<newline>'' @ response
      in [StSubheader title,
          StMarkdown ''---'',
          StMarkdown response,
          StDownloadButton ''Download Report'' report_text (download_file_name w sel)
            ''text/markdown''])"

text \<open>
  The body of \<open>if st.button("Generate Research Report")\<close>, for a selected deal (the
  script only defines \<open>include_sections\<close> then): the events in their order, and the
  exception that ends the run, if one does (\<open>state["messages"][-1]\<close> on an empty list).
\<close>

definition generate_report ::
  "(invoke_request \<Rightarrow> agent_state) \<Rightarrow> widgets \<Rightarrow> deal_selection \<Rightarrow>
   ui_event list \<times> py_exception option" where
  "generate_report graph_invoke w sel =
     (if \<not> py_any (map snd (include_sections w)) then
        ([StError ''Please select at least one section to include in the report''], None)
      else
        let spinner = StSpinner (''Generating '' @ report_type w @ '' for '' @
                                 selected_deal_name sel @ ''...'');
            request = agent_request w sel;
            state = graph_invoke request
        in (case state of
              State (Some contents) \<Rightarrow>
                if contents = [] then ([spinner, GraphInvoke request], Some IndexError)
                else ([spinner, GraphInvoke request] @ show_report w sel (last contents), None)
            | _ \<Rightarrow>
                ([spinner, GraphInvoke request,
                  StError ''Failed to generate the report. Please try again.''], None)))"

section \<open>The section catalog of the specification\<close>

text \<open>
  The specification's catalog: for each report type, its section keys in order. The
  checkbox of a section is known to the script by its label.
\<close>

definition section_catalog :: "string \<Rightarrow> string list" where
  "section_catalog rt =
     (if rt = ''Deal Summary Report'' then
        [''deal_overview'', ''transaction_details'', ''market_analysis'', ''competitors'']
      else if rt = ''Target Company Analysis'' then
        [''company_profile'', ''products_services'', ''management_team'',
         ''financial_performance'', ''competitors'']
      else if rt = ''PortCo Company Analysis'' then
        [''portco_profile'', ''acquisition_strategy'', ''integration_synergies'', ''competitors'']
      else if rt = ''Investment Thesis & Value Creation Strategy'' then
        [''investment_rationale'', ''value_creation_plan'', ''exit_strategy'', ''competitors'']
      else [])"

definition checkbox_label :: "string \<Rightarrow> string" where
  "checkbox_label section =
     (if section = ''deal_overview'' then ''Deal Overview''
      else if section = ''transaction_details'' then ''Transaction Details''
      else if section = ''market_analysis'' then ''Market Analysis''
      else if section = ''competitors'' then ''Competitor Analysis''
      else if section = ''company_profile'' then ''Company Profile''
      else if section = ''products_services'' then ''Products & Services''
      else if section = ''management_team'' then ''Management Team''
      else if section = ''financial_performance'' then ''Financial Performance''
      else if section = ''portco_profile'' then ''PortCo Profile''
      else if section = ''acquisition_strategy'' then ''Acquisition Strategy''
      else if section = ''integration_synergies'' then ''Integration & Synergies''
      else if section = ''investment_rationale'' then ''Investment Rationale''
      else if section = ''value_creation_plan'' then ''Value Creation Plan''
      else if section = ''exit_strategy'' then ''Exit Strategy''
      else [])"

text \<open>
  A section is selected when its checkbox is ticked; the bullets of the selected
  sections of the catalog, in the catalog's order.
\<close>

definition section_selected :: "widgets \<Rightarrow> string \<Rightarrow> bool" where
  "section_selected w section = checkbox w (checkbox_label section)"


section \<open>Example inputs and auxiliary definitions\<close>

text \<open>A state of the widgets and a selected deal.\<close>

definition example_widgets :: widgets where
  "example_widgets =
     \<lparr>report_type = ''Deal Summary Report'',
      model_option = ''gemini-2.0-flash'',
      research_effort = ''Comprehensive'',
      include_sources = True,
      detailed_sources = False,
      checkbox = (\<lambda>label. label = ''Deal Overview'' \<or> label = ''Market Analysis'')\<rparr>"

definition example_deal :: deal_selection where
  "example_deal =
     \<lparr>selected_deal_name = ''Anstey Horne'',
      selected_deal_json = ''{}'',
      portfolio_investor = ''BGF'',
      portfolio_url = None\<rparr>"

text \<open>The events that render or offer the report.\<close>

definition is_report_output :: "ui_event \<Rightarrow> bool" where
  "is_report_output e =
     (case e of
        StSubheader title \<Rightarrow> True
      | StMarkdown body \<Rightarrow> True
      | StDownloadButton label data file_name mime \<Rightarrow> True
      | _ \<Rightarrow> False)"

text \<open>The widgets with citations on and no section ticked.\<close>

definition no_sections_widgets :: widgets where
  "no_sections_widgets =
     \<lparr>report_type = ''Deal Summary Report'',
      model_option = ''gemini-2.0-flash'',
      research_effort = ''Standard'',
      include_sources = True,
      detailed_sources = False,
      checkbox = (\<lambda>label. False)\<rparr>"

text \<open>
  A parser that knows one text, and a file system whose first candidate holds text
  that does not parse while its second holds text that does.
\<close>

definition example_json_loads :: "string \<Rightarrow> string + json" where
  "example_json_loads text =
     (if text = ''{}'' then Inr (JDict [])
      else Inl ''Expecting value: line 1 column 1 (char 0)'')"


text \<open>
  A file system with nothing at any candidate, and one whose only candidate is the
  file beside the script, which does not parse.
\<close>

definition empty_fs :: filesystem where
  "empty_fs path = Missing"

definition corrupt_beside_script_fs :: filesystem where
  "corrupt_beside_script_fs path =
     (if path = ''/app/src/scraped_companies_final.json'' then Contents ''not json''
      else Missing)"


text \<open>The lines of a text, as \<open>split('\n')\<close> gives them.\<close>

definition body_lines :: "string \<Rightarrow> string list" where
  "body_lines response = py_split (CHR 0x0A) response"

section \<open>Strings and dictionaries\<close>

lemma title_loop_find:
  "title_loop investor fallback ls =
     (case find (looks_like_title investor) ls of
        None \<Rightarrow> fallback
      | Some line \<Rightarrow> clean_title line)"
  by (induction ls) simp_all

lemma replace_from_char_filter:
  "replace_from 0 [h] [] s = filter (\<lambda>c. c \<noteq> h) s"
  by (induction s) simp_all

lemma set_py_strip: "set (py_strip s) \<subseteq> set s"
  unfolding py_strip_def
  using set_dropWhileD by (metis set_rev subsetI)

lemma subseq_py_strip: "subseq (py_strip s) s"
proof -
  have "prefix (rev (dropWhile chr_isspace (rev (dropWhile chr_isspace s)))) (dropWhile chr_isspace s)"
    using suffix_dropWhile [of chr_isspace "rev (dropWhile chr_isspace s)"]
    by (simp add: suffix_to_prefix)
  then have "subseq (py_strip s) (dropWhile chr_isspace s)"
    unfolding py_strip_def by (rule prefix_imp_subseq)
  moreover have "subseq (dropWhile chr_isspace s) s"
    by (rule suffix_imp_subseq [OF suffix_dropWhile])
  ultimately show ?thesis
    by (rule subseq_order.order_trans)
qed

lemma subseq_replace_from: "subseq (replace_from k old [] s) s"
proof (induction s arbitrary: k)
  case Nil
  show ?case by simp
next
  case (Cons c cs)
  show ?case
  proof (cases k)
    case 0
    with Cons [of "length old - 1"] Cons [of 0] show ?thesis by auto
  next
    case (Suc j)
    with Cons [of j] show ?thesis by auto
  qed
qed

lemma add_bullets_concat:
  "add_bullets prompt sections = prompt @ concat (map (\<lambda>section. ''\<newline>- '' @ section) sections)"
  unfolding add_bullets_def
  by (induction sections arbitrary: prompt) simp_all

lemma selected_sections_update_sources:
  "selected_sections (AList.update ''sources'' v d) = selected_sections d"
  unfolding selected_sections_def
  by (induction d) auto

section \<open>The bullets of the prompt\<close>

lemma include_sections_catalog:
  assumes "report_type w \<in> set report_type_options"
  shows "include_sections w =
           map (\<lambda>section. (section, section_selected w section)) (section_catalog (report_type w)) @
           (if include_sources w then [(''sources'', True)] else [])"
  using assms
  by (auto simp: report_type_options_def include_sections_def section_catalog_def
        section_selected_def checkbox_label_def assign_all_def)


lemma build_prompt_parts:
  "build_prompt w sel =
     prompt_header (report_type w) (selected_deal_name sel) (selected_deal_json sel)
       (portfolio_investor sel) (portfolio_url_text sel) @
     concat (map (\<lambda>section. ''\<newline>- '' @ section) (selected_sections (include_sections w))) @
     (if report_type w = ''Deal Summary Report'' then deal_summary_requirements else []) @
     british_english_mandatory @
     british_english_highest_priority @
     (if include_sources w then sources_instruction (detailed_sources w) else [])"
  by (simp add: build_prompt_def add_bullets_concat Let_def)

lemma humanize_section_keys:
  "map humanize (section_catalog ''Deal Summary Report'') =
     [''Deal Overview'', ''Transaction Details'', ''Market Analysis'', ''Competitors'']"
  "map humanize (section_catalog ''Target Company Analysis'') =
     [''Company Profile'', ''Products Services'', ''Management Team'',
      ''Financial Performance'', ''Competitors'']"
  "map humanize (section_catalog ''PortCo Company Analysis'') =
     [''Portco Profile'', ''Acquisition Strategy'', ''Integration Synergies'', ''Competitors'']"
  "map humanize (section_catalog ''Investment Thesis & Value Creation Strategy'') =
     [''Investment Rationale'', ''Value Creation Plan'', ''Exit Strategy'', ''Competitors'']"
  by code_simp+



section \<open>The language directive\<close>

text \<open>
  C5. Whatever the report type, the sections and the citation settings, the prompt
  holds the two blocks of the British-English directive one after the other, the
  block headed MANDATORY LANGUAGE STYLE and then the block headed HIGHEST PRIORITY
  REQUIREMENT, and only the sources instruction, if any, follows them. Both blocks are
  constants: no input can change a character of either.
\<close>

theorem language_directive_always_present:
  "(\<exists>before.
      build_prompt w sel =
        before @ british_english_mandatory @ british_english_highest_priority @
        (if include_sources w then sources_instruction (detailed_sources w) else [])) \<and>
   py_in ''MANDATORY LANGUAGE STYLE: All reports MUST be written in British English''
     british_english_mandatory \<and>
   py_in ''HIGHEST PRIORITY REQUIREMENT: ALL OUTPUT MUST BE IN BRITISH ENGLISH ONLY.''
     british_english_highest_priority"
proof -
  have "py_in ''MANDATORY LANGUAGE STYLE: All reports MUST be written in British English''
          british_english_mandatory"
    by (simp add: british_english_mandatory_def)
  moreover have "py_in ''HIGHEST PRIORITY REQUIREMENT: ALL OUTPUT MUST BE IN BRITISH ENGLISH ONLY.''
          british_english_highest_priority"
    by (simp add: british_english_highest_priority_def)
  moreover have "\<exists>before.
      build_prompt w sel =
        before @ british_english_mandatory @ british_english_highest_priority @
        (if include_sources w then sources_instruction (detailed_sources w) else [])"
    by (subst build_prompt_parts) (metis append.assoc)
  ultimately show ?thesis by blast
qed

section \<open>The sources instruction\<close>

lemma include_sections_detailed:
  "include_sections (w\<lparr>detailed_sources := d\<rparr>) = include_sections w"
  by (simp add: include_sections_def)

lemma build_prompt_sources_off:
  "build_prompt (w\<lparr>include_sources := False\<rparr>) sel =
     prompt_header (report_type w) (selected_deal_name sel) (selected_deal_json sel)
       (portfolio_investor sel) (portfolio_url_text sel) @
     concat (map (\<lambda>section. ''\<newline>- '' @ section) (selected_sections (include_sections w))) @
     (if report_type w = ''Deal Summary Report'' then deal_summary_requirements else []) @
     british_english_mandatory @
     british_english_highest_priority"
proof -
  have "selected_sections (include_sections (w\<lparr>include_sources := False\<rparr>)) =
          selected_sections (include_sections w)"
    by (simp add: include_sections_def Let_def selected_sections_update_sources)
  then show ?thesis
    by (simp add: build_prompt_parts)
qed

lemma build_prompt_sources_on:
  assumes "include_sources w"
  shows "build_prompt w sel =
           build_prompt (w\<lparr>include_sources := False\<rparr>) sel @
           sources_instruction (detailed_sources w)"
  using assms by (simp add: build_prompt_sources_off) (simp add: build_prompt_parts)

lemma build_prompt_ends_with_directive:
  assumes "\<not> include_sources w"
  shows "suffix british_english_highest_priority (build_prompt w sel)"
proof -
  from assms have "build_prompt w sel =
     (prompt_header (report_type w) (selected_deal_name sel) (selected_deal_json sel)
       (portfolio_investor sel) (portfolio_url_text sel) @
     concat (map (\<lambda>section. ''\<newline>- '' @ section) (selected_sections (include_sections w))) @
     (if report_type w = ''Deal Summary Report'' then deal_summary_requirements else []) @
     british_english_mandatory) @
     british_english_highest_priority"
    by (simp add: build_prompt_parts)
  then show ?thesis
    by (rule suffixI)
qed

text \<open>
  C9. With citations on and the detailed checkbox ticked, the prompt is the prompt
  without citations followed by the sources instruction in its detailed form, which
  asks for publication date, author and reliability assessment of each source. With
  citations on and the detailed checkbox not ticked, what follows is the basic form:
  it asks for the sources with their URLs in a Sources section at the end, with
  numbered references, and names neither publication date nor author nor reliability.
  With citations off the prompt ends with the language directive, whatever the
  detailed checkbox says.
\<close>

theorem sources_instruction_by_citation_mode:
  "(include_sources w \<and> detailed_sources w \<longrightarrow>
      build_prompt w sel =
        build_prompt (w\<lparr>include_sources := False\<rparr>) sel @ sources_instruction True) \<and>
   (include_sources w \<and> \<not> detailed_sources w \<longrightarrow>
      build_prompt w sel =
        build_prompt (w\<lparr>include_sources := False\<rparr>) sel @ sources_instruction False) \<and>
   (\<not> include_sources w \<longrightarrow>
      suffix british_english_highest_priority (build_prompt w sel) \<and>
      build_prompt (w\<lparr>detailed_sources := d\<rparr>) sel = build_prompt w sel) \<and>
   py_in ''publication date, author, and reliability assessment'' (sources_instruction True) \<and>
   py_in ''section at the end with numbered references and clickable links''
     (sources_instruction True) \<and>
   \<not> py_in ''publication date'' (sources_instruction False) \<and>
   \<not> py_in ''author'' (sources_instruction False) \<and>
   \<not> py_in ''reliability'' (sources_instruction False) \<and>
   py_in ''List all sources with their URLs at the end of the report''
     (sources_instruction False) \<and>
   py_in ''section at the end with numbered references and clickable links''
     (sources_instruction False)"
proof (intro conjI impI)
  assume "include_sources w \<and> detailed_sources w"
  then show "build_prompt w sel =
        build_prompt (w\<lparr>include_sources := False\<rparr>) sel @ sources_instruction True"
    using build_prompt_sources_on [of w sel] by simp
next
  assume "include_sources w \<and> \<not> detailed_sources w"
  then show "build_prompt w sel =
        build_prompt (w\<lparr>include_sources := False\<rparr>) sel @ sources_instruction False"
    using build_prompt_sources_on [of w sel] by simp
next
  assume "\<not> include_sources w"
  then show "suffix british_english_highest_priority (build_prompt w sel)"
    by (rule build_prompt_ends_with_directive)
next
  assume "\<not> include_sources w"
  then show "build_prompt (w\<lparr>detailed_sources := d\<rparr>) sel = build_prompt w sel"
    by (simp add: build_prompt_parts include_sections_detailed)
next
  show "py_in ''publication date, author, and reliability assessment'' (sources_instruction True)"
    by code_simp
next
  show "py_in ''section at the end with numbered references and clickable links''
     (sources_instruction True)"
    by code_simp
next
  show "\<not> py_in ''publication date'' (sources_instruction False)"
    by code_simp
next
  show "\<not> py_in ''author'' (sources_instruction False)"
    by code_simp
next
  show "\<not> py_in ''reliability'' (sources_instruction False)"
    by code_simp
next
  show "py_in ''List all sources with their URLs at the end of the report''
     (sources_instruction False)"
    by code_simp
next
  show "py_in ''section at the end with numbered references and clickable links''
     (sources_instruction False)"
    by code_simp
qed

theorem sources_instruction_by_citation_mode_witness:
  "build_prompt example_widgets example_deal =
     build_prompt (example_widgets\<lparr>include_sources := False\<rparr>) example_deal @
     sources_instruction False \<and>
   build_prompt (example_widgets\<lparr>detailed_sources := True\<rparr>) example_deal =
     build_prompt (example_widgets\<lparr>include_sources := False, detailed_sources := True\<rparr>) example_deal @
     sources_instruction True \<and>
   suffix british_english_highest_priority
     (build_prompt (example_widgets\<lparr>include_sources := False\<rparr>) example_deal)"
  using sources_instruction_by_citation_mode [of example_widgets example_deal True]
    sources_instruction_by_citation_mode
      [of "example_widgets\<lparr>detailed_sources := True\<rparr>" example_deal True]
    sources_instruction_by_citation_mode
      [of "example_widgets\<lparr>include_sources := False\<rparr>" example_deal True]
  by (simp add: example_widgets_def)

section \<open>The report button\<close>

lemma agent_request_params:
  "(initial_search_query_count (agent_request w sel), max_research_loops (agent_request w sel)) =
     research_params (research_effort w)"
  by (simp add: agent_request_def split: prod.splits)

lemma generate_report_invokes:
  assumes "GraphInvoke r \<in> set (fst (generate_report graph_invoke w sel))"
  shows "r = agent_request w sel"
  using assms
  by (auto simp: generate_report_def show_report_def Let_def
        split: if_splits agent_state.splits option.splits)

lemma example_guard: "py_any (map snd (include_sections example_widgets))"
  by (simp add: py_any_def include_sections_def example_widgets_def assign_all_def)

text \<open>
  C6. The research depth gives the pair (initial queries, loops): Basic gives (2, 2),
  Standard gives (4, 5), Comprehensive gives (6, 10). Every request the button sends
  to the agent carries that pair, as \<open>initial_search_query_count\<close> and
  \<open>max_research_loops\<close>.
\<close>

theorem research_depth_mapping:
  "research_params ''Basic'' = (2, 2) \<and>
   research_params ''Standard'' = (4, 5) \<and>
   research_params ''Comprehensive'' = (6, 10) \<and>
   (\<forall>r. GraphInvoke r \<in> set (fst (generate_report graph_invoke w sel)) \<longrightarrow>
      (initial_search_query_count r, max_research_loops r) =
        research_params (research_effort w))"
proof (intro conjI allI impI)
  show "research_params ''Basic'' = (2, 2)"
    by (simp add: research_params_def)
  show "research_params ''Standard'' = (4, 5)"
    by (simp add: research_params_def)
  show "research_params ''Comprehensive'' = (6, 10)"
    by (simp add: research_params_def)
next
  fix r
  assume "GraphInvoke r \<in> set (fst (generate_report graph_invoke w sel))"
  then have "r = agent_request w sel"
    by (rule generate_report_invokes)
  then show "(initial_search_query_count r, max_research_loops r) =
        research_params (research_effort w)"
    by (simp only: agent_request_params)
qed

theorem research_depth_mapping_witness:
  "GraphInvoke (agent_request example_widgets example_deal) \<in>
     set (fst (generate_report (\<lambda>request. Falsy) example_widgets example_deal)) \<and>
   initial_search_query_count (agent_request example_widgets example_deal) = 6 \<and>
   max_research_loops (agent_request example_widgets example_deal) = 10"
proof -
  have invoked: "GraphInvoke (agent_request example_widgets example_deal) \<in>
     set (fst (generate_report (\<lambda>request. Falsy) example_widgets example_deal))"
    using example_guard by (simp add: generate_report_def)
  have "research_params (research_effort example_widgets) = (6, 10)"
    by (simp add: research_params_def example_widgets_def)
  with invoked research_depth_mapping
         [of "\<lambda>request. Falsy" example_widgets example_deal]
  show ?thesis by auto
qed

text \<open>
  C8. When the section check lets the request through and the agent returns a falsy
  value, or a state without messages, the page shows the spinner, calls the agent
  once, and shows the failure message: no subheader, no markdown and no download
  button, so no title is extracted and no report is composed.
\<close>

theorem agent_failure_reported:
  assumes "py_any (map snd (include_sections w))"
      and "graph_invoke (agent_request w sel) = Falsy \<or>
           graph_invoke (agent_request w sel) = State None"
  shows "generate_report graph_invoke w sel =
           ([StSpinner (''Generating '' @ report_type w @ '' for '' @
                        selected_deal_name sel @ ''...''),
             GraphInvoke (agent_request w sel),
             StError ''Failed to generate the report. Please try again.''], None) \<and>
         \<not> list_ex is_report_output (fst (generate_report graph_invoke w sel))"
  using assms
  by (auto simp: generate_report_def is_report_output_def)

theorem agent_failure_reported_witness:
  "generate_report (\<lambda>request. State None) example_widgets example_deal =
     ([StSpinner ''Generating Deal Summary Report for Anstey Horne...'',
       GraphInvoke (agent_request example_widgets example_deal),
       StError ''Failed to generate the report. Please try again.''], None) \<and>
   generate_report (\<lambda>request. Falsy) example_widgets example_deal =
     ([StSpinner ''Generating Deal Summary Report for Anstey Horne...'',
       GraphInvoke (agent_request example_widgets example_deal),
       StError ''Failed to generate the report. Please try again.''], None)"
  using agent_failure_reported [OF example_guard, of "\<lambda>request. State None" example_deal]
    agent_failure_reported [OF example_guard, of "\<lambda>request. Falsy" example_deal]
  by (simp add: example_widgets_def example_deal_def)

text \<open>
  C2. The check before the agent is called reads every value of \<open>include_sections\<close>,
  the entry \<open>sources\<close> among them. With citations on and no section ticked, that
  entry alone lets the request through: the agent is called with a prompt that has no
  section bullet.
\<close>

theorem sources_flag_passes_empty_selection:
  "selected_sections (include_sections no_sections_widgets) = [] \<and>
   generate_report (\<lambda>request. Falsy) no_sections_widgets example_deal =
     ([StSpinner ''Generating Deal Summary Report for Anstey Horne...'',
       GraphInvoke (agent_request no_sections_widgets example_deal),
       StError ''Failed to generate the report. Please try again.''], None)"
  by (simp add: generate_report_def py_any_def include_sections_def selected_sections_def
        no_sections_widgets_def example_deal_def assign_all_def)

text \<open>
  With citations off the check does what its message says: no ticked section, no call.
\<close>

lemma empty_selection_rejected_without_sources:
  assumes "\<not> include_sources w"
      and "\<not> list_ex (section_selected w) (section_catalog (report_type w))"
  shows "generate_report graph_invoke w sel =
           ([StError ''Please select at least one section to include in the report''], None)"
proof -
  have "\<not> py_any (map snd (include_sections w))"
  proof (cases "report_type w \<in> set report_type_options")
    case True
    from include_sections_catalog [OF True] assms show ?thesis
      by (simp add: py_any_def list_ex_iff)
  next
    case False
    then have "include_sections w = []"
      using assms(1) by (simp add: include_sections_def report_type_options_def)
    then show ?thesis
      by (simp add: py_any_def)
  qed
  then show ?thesis
    by (simp add: generate_report_def)
qed

section \<open>The catalog loader\<close>

lemma probe_find:
  "(case probe json_loads fs paths of
      Some r \<Rightarrow> r
    | None \<Rightarrow> open_and_load json_loads fs last_resort) =
   (case find (path_exists fs) (paths @ [last_resort]) of
      None \<Rightarrow> Inl (FileNotFoundError (Some last_resort))
    | Some path \<Rightarrow> open_and_load json_loads fs path)"
  by (induction paths) (simp_all add: path_exists_def open_and_load_def)

lemma load_try_find:
  "load_try json_loads fs script_dir =
     (case find (path_exists fs) (candidates script_dir) of
        None \<Rightarrow> Inl (FileNotFoundError (Some absolute_path))
      | Some path \<Rightarrow> open_and_load json_loads fs path)"
  unfolding load_try_def candidates_def by (rule probe_find)

text \<open>
  What leaves \<open>load_deal_data\<close>: the value of the \<open>try\<close>, or, when the \<open>try\<close> raises,
  what leaves the handler.
\<close>

lemma load_deal_data_outcome:
  "fst (load_deal_data json_loads fs script_dir cwd) =
     (case load_try json_loads fs script_dir of
        Inr v \<Rightarrow> Inr v
      | Inl e \<Rightarrow>
          (case cwd of
             None \<Rightarrow> Inl (FileNotFoundError None)
           | Some dir \<Rightarrow> Inr empty_catalog))"
  by (simp add: load_deal_data_def load_except_def os_getcwd_def Let_def
        split: sum.splits option.splits)




text \<open>
  C4. The handler of \<open>load_deal_data\<close> calls \<open>os.getcwd()\<close> for its second message,
  outside any \<open>try\<close>. When the working directory is gone, that call raises, and the
  \<open>FileNotFoundError\<close> reaches the caller in place of the empty catalog: so it is when
  no candidate exists, and so it is when the located file is not valid JSON.
\<close>

theorem load_deal_data_raises_without_cwd:
  "fst (load_deal_data example_json_loads empty_fs ''/app/src'' None) =
     Inl (FileNotFoundError None) \<and>
   find (path_exists corrupt_beside_script_fs) (candidates ''/app/src'') =
     Some ''/app/src/scraped_companies_final.json'' \<and>
   fst (load_deal_data example_json_loads corrupt_beside_script_fs ''/app/src'' None) =
     Inl (FileNotFoundError None)"
  by (simp add: load_deal_data_outcome load_try_def possible_paths_def candidates_def
        path_exists_def open_and_load_def empty_fs_def corrupt_beside_script_fs_def
        example_json_loads_def os_path_join_def)

text \<open>
  While the working directory is there, the loader does what C4 says: it returns a
  value, and the value is the empty catalog when no candidate exists and when the
  located file (the first candidate that exists) is not valid JSON.
\<close>

lemma load_deal_data_returns_with_cwd:
  assumes "cwd = Some dir"
  shows "(\<exists>v. fst (load_deal_data json_loads fs script_dir cwd) = Inr v) \<and>
   ((\<forall>path \<in> set (candidates script_dir). fs path = Missing) \<longrightarrow>
      fst (load_deal_data json_loads fs script_dir cwd) = Inr empty_catalog) \<and>
   (\<forall>path body msg.
      find (path_exists fs) (candidates script_dir) = Some path \<and>
      fs path = Contents body \<and> json_loads body = Inl msg \<longrightarrow>
      fst (load_deal_data json_loads fs script_dir cwd) = Inr empty_catalog)"
proof (intro conjI allI impI)
  show "\<exists>v. fst (load_deal_data json_loads fs script_dir cwd) = Inr v"
    using assms by (simp add: load_deal_data_outcome split: sum.splits)
next
  assume "\<forall>path \<in> set (candidates script_dir). fs path = Missing"
  then have "find (path_exists fs) (candidates script_dir) = None"
    by (simp add: find_None_iff path_exists_def)
  then show "fst (load_deal_data json_loads fs script_dir cwd) = Inr empty_catalog"
    using assms by (simp add: load_deal_data_outcome load_try_find)
next
  fix path body msg
  assume "find (path_exists fs) (candidates script_dir) = Some path \<and>
      fs path = Contents body \<and> json_loads body = Inl msg"
  then show "fst (load_deal_data json_loads fs script_dir cwd) = Inr empty_catalog"
    using assms by (simp add: load_deal_data_outcome load_try_find open_and_load_def)
qed

section \<open>Title extraction\<close>

lemma extract_title_find:
  "extract_title investor fallback response =
     (case find (looks_like_title investor) (take 5 (body_lines (py_strip response))) of
        None \<Rightarrow> fallback
      | Some line \<Rightarrow> clean_title line)"
  by (simp add: extract_title_def body_lines_def title_loop_find)

lemma clean_title_filter:
  "clean_title line = py_strip (filter (\<lambda>c. c \<noteq> CHR ''#'') (py_replace ''# '' '''' line))"
  by (simp add: clean_title_def py_replace_def replace_from_char_filter)

lemma clean_title_no_hash: "CHR ''#'' \<notin> set (clean_title line)"
  using set_py_strip [of "filter (\<lambda>c. c \<noteq> CHR ''#'') (py_replace ''# '' '''' line)"]
  by (auto simp: clean_title_filter)

lemma subseq_clean_title: "subseq (clean_title line) line"
proof -
  have "subseq (py_replace ''# '' '''' line) line"
    by (simp add: py_replace_def subseq_replace_from)
  then have "subseq (filter (\<lambda>c. c \<noteq> CHR ''#'') (py_replace ''# '' '''' line)) line"
    by (rule subseq_order.order_trans [OF subseq_filter_left])
  then show ?thesis
    unfolding clean_title_filter by (rule subseq_order.order_trans [OF subseq_py_strip])
qed

text \<open>
  C7, as the code has it. The body is first stripped of leading and trailing
  whitespace. Of the first 5 lines of the stripped body, the first that starts with
  the heading marker \<open># \<close>, or is upper-case, or holds the investor's name, gives
  the title: that line with the markers removed and then stripped. When none of the 5
  does, the title is the target company's name.
\<close>

theorem extract_title_first_qualifying_line:
  "extract_title investor fallback response =
     (case find (looks_like_title investor) (take 5 (body_lines (py_strip response))) of
        None \<Rightarrow> fallback
      | Some line \<Rightarrow> py_strip (py_replace ''#'' '''' (py_replace ''# '' '''' line)))"
  by (simp add: extract_title_find clean_title_def split: option.splits)

text \<open>
  C7, as stated, fails for a body that starts with blank lines: none of the first 5
  lines of this body passes the test, yet the title is not the target company's name,
  since the heading on the sixth line is the first line of the stripped body.
\<close>

theorem extract_title_strips_body_first:
  "find (looks_like_title ''BGF'')
     (take 5 (body_lines ''\<newline>\<newline>\<newline>\<newline>\<newline># BGF Backs Anstey Horne'')) = None \<and>
   extract_title ''BGF'' ''Anstey Horne''
     ''\<newline>\<newline>\<newline>\<newline>\<newline># BGF Backs Anstey Horne'' = ''BGF Backs Anstey Horne'' \<and>
   ''BGF Backs Anstey Horne'' \<noteq> ''Anstey Horne''"
  by code_simp

text \<open>
  C10. When a line is selected, the title is that line with every \<open># \<close> removed, then
  every remaining \<open>#\<close> removed, then stripped: no \<open>#\<close> is left in the title, wherever
  it stood in the line, and the title keeps the line's other characters in their
  order (a space that follows a \<open>#\<close> goes with it). That title is the one the page
  shows as its subheader and the one that heads the text offered for download.
\<close>

theorem title_drops_every_hash:
  assumes "find (looks_like_title (portfolio_investor sel))
             (take 5 (body_lines (py_strip response))) = Some line"
  shows "extract_title (portfolio_investor sel) (selected_deal_name sel) response =
           py_strip (filter (\<lambda>c. c \<noteq> CHR ''#'') (py_replace ''# '' '''' line)) \<and>
         CHR ''#'' \<notin> set (extract_title (portfolio_investor sel) (selected_deal_name sel) response) \<and>
         subseq (extract_title (portfolio_investor sel) (selected_deal_name sel) response) line \<and>
         show_report w sel response =
           [StSubheader (py_strip (filter (\<lambda>c. c \<noteq> CHR ''#'') (py_replace ''# '' '''' line))),
            StMarkdown ''---'',
            StMarkdown response,
            StDownloadButton ''Download Report''
              (''# '' @ py_strip (filter (\<lambda>c. c \<noteq> CHR ''#'') (py_replace ''# '' '''' line)) @
               ''\<newline>\<newline>'' @ response)
              (download_file_name w sel) ''text/markdown'']"
  using assms clean_title_no_hash [of line] subseq_clean_title [of line]
  by (simp add: extract_title_find clean_title_filter show_report_def Let_def)

theorem title_drops_every_hash_witness:
  "find (looks_like_title (portfolio_investor example_deal))
     (take 5 (body_lines (py_strip ''# BGF Backs C# Shop''))) = Some ''# BGF Backs C# Shop'' \<and>
   extract_title ''BGF'' ''Anstey Horne'' ''# BGF Backs C# Shop'' = ''BGF Backs CShop'' \<and>
   show_report example_widgets example_deal ''# BGF Backs C# Shop'' =
     [StSubheader ''BGF Backs CShop'',
      StMarkdown ''---'',
      StMarkdown ''# BGF Backs C# Shop'',
      StDownloadButton ''Download Report''
        ''# BGF Backs CShop\<newline>\<newline># BGF Backs C# Shop''
        ''Anstey Horne_Deal_Summary_Report.md'' ''text/markdown'']"
proof -
  have found: "find (looks_like_title (portfolio_investor example_deal))
     (take 5 (body_lines (py_strip ''# BGF Backs C# Shop''))) = Some ''# BGF Backs C# Shop''"
    by code_simp
  have cleaned: "py_strip (filter (\<lambda>c. c \<noteq> CHR ''#'') (py_replace ''# '' '''' ''# BGF Backs C# Shop'')) =
          ''BGF Backs CShop''"
    by code_simp
  have name: "download_file_name example_widgets example_deal = ''Anstey Horne_Deal_Summary_Report.md''"
    by code_simp
  have sel: "portfolio_investor example_deal = ''BGF''" "selected_deal_name example_deal = ''Anstey Horne''"
    by (simp_all add: example_deal_def)
  from title_drops_every_hash [OF found, of example_widgets] found
  show ?thesis
    by (simp add: cleaned name sel)
qed

text \<open>The example of the specification.\<close>

lemma extract_title_heading_example:
  "extract_title ''Acme Corp'' ''Widget Co'' ''# Acme Corp Acquires Widget Co'' =
     ''Acme Corp Acquires Widget Co''"
  by code_simp

end
